theory Spec2Isabelle
  imports Main
begin

section \<open>Text written by \<open>print\<close>\<close>

text \<open>
  Python's \<open>print(s, file=f)\<close> writes \<open>s\<close> followed by one newline. Streams are
  modelled as the text written to them so far.
\<close>

abbreviation newline :: char where
  "newline \<equiv> CHR 0x0A"

definition println :: "string \<Rightarrow> string" where
  "println s = s @ [newline]"

section \<open>Redirection extraction: \<open>handle_redirection\<close>\<close>

text \<open>
  The five locals of \<open>handle_redirection\<close> (\<open>output_file\<close>, \<open>append_output\<close>,
  \<open>error_file\<close>, \<open>append_error\<close>, \<open>clean_command\<close>) together with the text the function
  prints to \<open>sys.stderr\<close>. \<open>None\<close> is Python's \<open>None\<close>.
\<close>

record redirection =
  output_file :: "string option"
  append_output :: bool
  error_file :: "string option"
  append_error :: bool
  clean_command :: "string list"
  printed :: string

text \<open>
  The \<open>while i < len(command_parts)\<close> loop. The list argument is the part of
  \<open>command_parts\<close> from index \<open>i\<close> on, so \<open>i + 1 < len(command_parts)\<close> holds exactly
  when that part has at least two elements. A directive with a following token advances
  \<open>i\<close> by two, everything else by one. The branches are in the order of the source's
  \<open>if\<close>/\<open>elif\<close> chain.
\<close>

fun redirection_loop :: "string list \<Rightarrow> redirection \<Rightarrow> redirection" where
  "redirection_loop [] st = st"
| "redirection_loop [t] st =
     (if t \<in> set [''>'', ''1>''] then
        st\<lparr>printed := printed st @ println ''Syntax error: Missing file for output redirection''\<rparr>
      else if t \<in> set [''>>'', ''1>>''] then
        st\<lparr>printed := printed st @ println ''Syntax error: Missing file for output redirection''\<rparr>
      else if t = ''2>'' then
        st\<lparr>printed := printed st @ println ''Syntax error: Missing file for error redirection''\<rparr>
      else if t = ''2>>'' then
        st\<lparr>printed := printed st @ println ''Syntax error: Missing file for error redirection''\<rparr>
      else st\<lparr>clean_command := clean_command st @ [t]\<rparr>)"
| "redirection_loop (t # f # rest) st =
     (if t \<in> set [''>'', ''1>''] then
        redirection_loop rest (st\<lparr>output_file := Some f, append_output := False\<rparr>)
      else if t \<in> set [''>>'', ''1>>''] then
        redirection_loop rest (st\<lparr>output_file := Some f, append_output := True\<rparr>)
      else if t = ''2>'' then
        redirection_loop rest (st\<lparr>error_file := Some f, append_error := False\<rparr>)
      else if t = ''2>>'' then
        redirection_loop rest (st\<lparr>error_file := Some f, append_error := True\<rparr>)
      else redirection_loop (f # rest) (st\<lparr>clean_command := clean_command st @ [t]\<rparr>))"

definition no_redirection :: redirection where
  "no_redirection =
     \<lparr>output_file = None, append_output = False, error_file = None, append_error = False,
      clean_command = [], printed = []\<rparr>"

definition handle_redirection :: "string list \<Rightarrow> redirection" where
  "handle_redirection command_parts = redirection_loop command_parts no_redirection"

subsection \<open>The extractor as the specification words it\<close>

text \<open>
  The specification's table of directive tokens, and its description of the scan: a
  directive consumes itself and the following token, a directive in last position is
  dropped, any other token is a clean token. \<open>scan\<close> cuts a token sequence into these
  items from left to right.
\<close>

definition output_directives :: "string list" where
  "output_directives = [''>'', ''1>'', ''>>'', ''1>>'']"

definition error_directives :: "string list" where
  "error_directives = [''2>'', ''2>>'']"

definition append_directives :: "string list" where
  "append_directives = [''>>'', ''1>>'', ''2>>'']"

definition is_directive :: "string \<Rightarrow> bool" where
  "is_directive t = (t \<in> set (output_directives @ error_directives))"

datatype item = Plain string | Directive string string | Dangling string

fun scan :: "string list \<Rightarrow> item list" where
  "scan [] = []"
| "scan [t] = (if is_directive t then [Dangling t] else [Plain t])"
| "scan (t # f # rest) =
     (if is_directive t then Directive t f # scan rest else Plain t # scan (f # rest))"

fun clean_tokens :: "item list \<Rightarrow> string list" where
  "clean_tokens [] = []"
| "clean_tokens (Plain t # items) = t # clean_tokens items"
| "clean_tokens (_ # items) = clean_tokens items"

text \<open>
  The last complete directive of a stream (given by its directive tokens), as the pair of
  the directive token and the filename; \<open>None\<close> when the stream has none.
\<close>

fun last_directive :: "string list \<Rightarrow> item list \<Rightarrow> (string \<times> string) option" where
  "last_directive ds [] = None"
| "last_directive ds (Directive d f # items) =
     (case last_directive ds items of
        Some r \<Rightarrow> Some r
      | None \<Rightarrow> if d \<in> set ds then Some (d, f) else None)"
| "last_directive ds (_ # items) = last_directive ds items"

definition target_of :: "(string \<times> string) option \<Rightarrow> string option" where
  "target_of r = map_option snd r"

definition append_of :: "(string \<times> string) option \<Rightarrow> bool" where
  "append_of r = (case r of None \<Rightarrow> False | Some (d, f) \<Rightarrow> d \<in> set append_directives)"

section \<open>Tokenizer: \<open>parse_input\<close>\<close>

text \<open>
  \<open>parse_input\<close> calls \<open>shlex.split(user_input, posix=True)\<close> of the Python standard
  library, which builds a \<open>shlex\<close> lexer in POSIX mode with \<open>whitespace_split = True\<close>,
  \<open>commenters = ''\<close> and no punctuation characters, and collects the tokens that
  \<open>read_token\<close> returns until it returns \<open>None\<close>. The lexer's constants:
\<close>

abbreviation backslash :: char where
  "backslash \<equiv> CHR 0x5C"

abbreviation single_quote :: char where
  "single_quote \<equiv> CHR 0x27"

abbreviation double_quote :: char where
  "double_quote \<equiv> CHR 0x22"

definition whitespace :: "char list" where
  "whitespace = [CHR '' '', CHR 0x09, CHR 0x0D, CHR 0x0A]"

definition quotes :: "char list" where
  "quotes = [single_quote, double_quote]"

definition escape :: "char list" where
  "escape = [backslash]"

definition escapedquotes :: "char list" where
  "escapedquotes = [double_quote]"

text \<open>
  The lexer's \<open>state\<close> attribute is a character: \<open>' '\<close> between tokens, \<open>'a'\<close> inside a
  word, the quote character inside quotes, the escape character right after it was read.
  (\<open>None\<close>, past the end of the input, only arises at the end and is handled there.)
\<close>

datatype lex_state = St_space | St_word | St_quote char | St_escape char

fun in_quotes :: "lex_state \<Rightarrow> bool" where
  "in_quotes (St_quote q) = True"
| "in_quotes _ = False"

fun differs_from :: "char \<Rightarrow> lex_state \<Rightarrow> bool" where
  "differs_from c (St_quote q) = (c \<noteq> q)"
| "differs_from c (St_escape e) = (c \<noteq> e)"
| "differs_from c St_space = (c \<noteq> CHR '' '')"
| "differs_from c St_word = (c \<noteq> CHR ''a'')"

text \<open>
  \<open>read_token\<close>, iterated by \<open>list(lex)\<close>: one recursion over the characters of the
  input, with the locals \<open>quoted\<close> and \<open>escapedstate\<close>, the attribute \<open>token\<close>, and the
  tokens returned so far. Where the source breaks out of its loop with a token, the token
  is appended and the next call of \<open>read_token\<close> starts (\<open>quoted = False\<close>,
  \<open>escapedstate = ' '\<close>, \<open>token = ''\<close>). At the end of the input the source raises
  \<open>ValueError\<close> inside quotes or after an escape character; otherwise it returns the
  token, or \<open>None\<close> when the token is empty and was not quoted, and every later call
  returns \<open>None\<close>. A character that is neither whitespace, a quote nor the escape
  character takes the \<open>wordchars\<close> or the \<open>whitespace_split\<close> branch, which do the same.
\<close>

fun read_tokens ::
  "lex_state \<Rightarrow> bool \<Rightarrow> lex_state \<Rightarrow> string \<Rightarrow> string list \<Rightarrow> string \<Rightarrow> string + string list"
where
  "read_tokens state quoted escapedstate token acc [] =
     (case state of
        St_space \<Rightarrow> Inr (if token \<noteq> [] \<or> quoted then acc @ [token] else acc)
      | St_quote q \<Rightarrow> Inl ''No closing quotation''
      | St_escape e \<Rightarrow> Inl ''No escaped character''
      | St_word \<Rightarrow> Inr (if token \<noteq> [] \<or> quoted then acc @ [token] else acc))"
| "read_tokens state quoted escapedstate token acc (nextchar # rest) =
     (case state of
        St_space \<Rightarrow>
          if nextchar \<in> set whitespace then
            (if token \<noteq> [] \<or> quoted
             then read_tokens St_space False St_space [] (acc @ [token]) rest
             else read_tokens St_space quoted escapedstate token acc rest)
          else if nextchar \<in> set escape then
            read_tokens (St_escape nextchar) quoted St_word token acc rest
          else if nextchar \<in> set quotes then
            read_tokens (St_quote nextchar) quoted escapedstate token acc rest
          else read_tokens St_word quoted escapedstate [nextchar] acc rest
      | St_quote q \<Rightarrow>
          if nextchar = q then read_tokens St_word True escapedstate token acc rest
          else if nextchar \<in> set escape \<and> q \<in> set escapedquotes then
            read_tokens (St_escape nextchar) True (St_quote q) token acc rest
          else read_tokens (St_quote q) True escapedstate (token @ [nextchar]) acc rest
      | St_escape e \<Rightarrow>
          if in_quotes escapedstate \<and> nextchar \<noteq> e \<and> differs_from nextchar escapedstate
          then read_tokens escapedstate quoted escapedstate (token @ [e] @ [nextchar]) acc rest
          else read_tokens escapedstate quoted escapedstate (token @ [nextchar]) acc rest
      | St_word \<Rightarrow>
          if nextchar \<in> set whitespace then
            (if token \<noteq> [] \<or> quoted
             then read_tokens St_space False St_space [] (acc @ [token]) rest
             else read_tokens St_space quoted escapedstate token acc rest)
          else if nextchar \<in> set quotes then
            read_tokens (St_quote nextchar) quoted escapedstate token acc rest
          else if nextchar \<in> set escape then
            read_tokens (St_escape nextchar) quoted St_word token acc rest
          else read_tokens St_word quoted escapedstate (token @ [nextchar]) acc rest)"

definition shlex_split :: "string \<Rightarrow> string + string list" where
  "shlex_split s = read_tokens St_space False St_space [] [] s"

text \<open>
  \<open>parse_input\<close> returns the tokens and what it printed to \<open>sys.stderr\<close>: on
  \<open>ValueError\<close> the message and no tokens.
\<close>

definition parse_input :: "string \<Rightarrow> string list \<times> string" where
  "parse_input user_input =
     (case shlex_split user_input of
        Inr tokens \<Rightarrow> (tokens, [])
      | Inl e \<Rightarrow> ([], println (''Parsing error: '' @ e)))"

section \<open>The operating system and the session\<close>

text \<open>
  Exceptions are values. Each carries its class and the text \<open>str(e)\<close>. All the classes
  below derive from \<open>Exception\<close>; \<open>OtherException\<close> stands for any class that is none of
  the named ones.
\<close>

datatype exc_kind =
  FileNotFoundError | NotADirectoryError | PermissionError | IndexError | OtherException

type_synonym py_exc = "exc_kind \<times> string"

definition index_error :: py_exc where
  "index_error = (IndexError, ''list index out of range'')"

text \<open>
  The library and system calls of the program are parameters: what each returns or raises
  is given by the machine the shell runs on. Paths are resolved against the working
  directory that is passed along.
  \<^item> \<open>which_path\<close>: \<open>shutil.which(command)\<close>;
  \<^item> \<open>is_executable_file\<close>: \<open>os.path.isfile(p) and os.access(p, os.X_OK)\<close>;
  \<^item> \<open>abspath\<close>: \<open>os.path.abspath(path)\<close>;
  \<^item> \<open>chdir\<close>: \<open>os.chdir\<close> on the path it is called with (an absolute path in
    \<open>change_directory\<close>, the home directory in \<open>cd\<close> without argument), raising or giving
    the directory that \<open>os.getcwd()\<close> reports afterwards;
  \<^item> \<open>open_error\<close>: the exception of \<open>open(path, "w")\<close> or \<open>open(path, "a")\<close>, if any;
  \<^item> \<open>subprocess_run\<close>: \<open>subprocess.run(command_parts, text=True, ...)\<close>, raising or
    giving the text the process wrote to its standard output and standard error;
  \<^item> \<open>shared_content\<close>: what a file holds after the process wrote its standard output
    and its standard error to it through two handles, from the content after the two
    \<open>open\<close> calls and the two texts (the writes overlap or interleave as the process
    makes them);
  \<^item> \<open>getcwd_error\<close>: the exception of \<open>os.getcwd()\<close> in the given working
    directory, if any (it raises \<open>FileNotFoundError\<close> once the directory was removed);
  \<^item> \<open>environ_HOME\<close>: \<open>os.environ.get("HOME")\<close>.
  In \<open>change_directory\<close> the exception of \<open>chdir\<close> stands for that of the whole
  expression \<open>os.chdir(os.path.abspath(path))\<close>, which is evaluated inside the \<open>try\<close>.
\<close>

record system =
  which_path :: "string \<Rightarrow> string \<Rightarrow> string option"
  is_executable_file :: "string \<Rightarrow> string \<Rightarrow> bool"
  abspath :: "string \<Rightarrow> string \<Rightarrow> string"
  chdir :: "string \<Rightarrow> py_exc + string"
  open_error :: "string \<Rightarrow> py_exc option"
  subprocess_run :: "string \<Rightarrow> string list \<Rightarrow> py_exc + string \<times> string"
  shared_content :: "string \<Rightarrow> string \<Rightarrow> string \<Rightarrow> string"
  getcwd_error :: "string \<Rightarrow> py_exc option"
  environ_HOME :: "string option"

text \<open>
  The state of a session: the process-wide working directory, the contents of the files
  written through redirections (by absolute path), and the text written to the session's
  standard output and standard error.
\<close>

record world =
  cwd :: string
  files :: "string \<rightharpoonup> string"
  stdout :: string
  stderr :: string

text \<open>\<open>os.getcwd()\<close>: raises, or returns the working directory.\<close>

definition getcwd :: "system \<Rightarrow> world \<Rightarrow> py_exc + string" where
  "getcwd os w = (case getcwd_error os (cwd w) of Some e \<Rightarrow> Inl e | None \<Rightarrow> Inr (cwd w))"

definition write_stdout :: "string \<Rightarrow> world \<Rightarrow> world" where
  "write_stdout s w = w\<lparr>stdout := stdout w @ s\<rparr>"

definition write_stderr :: "string \<Rightarrow> world \<Rightarrow> world" where
  "write_stderr s w = w\<lparr>stderr := stderr w @ s\<rparr>"

text \<open>Python's truth value of \<open>output_file\<close>: \<open>None\<close> and the empty string are false.\<close>

fun truthy :: "string option \<Rightarrow> bool" where
  "truthy None = False"
| "truthy (Some s) = (s \<noteq> [])"

definition file_content :: "world \<Rightarrow> string \<Rightarrow> string" where
  "file_content w p = (case files w p of None \<Rightarrow> [] | Some old \<Rightarrow> old)"

text \<open>
  \<open>open(path, mode)\<close> with mode \<open>"a"\<close> or \<open>"w"\<close>: raises, or creates the file when absent
  and truncates it in mode \<open>"w"\<close>. The result is the absolute path, standing for the handle.
\<close>

definition open_file :: "system \<Rightarrow> world \<Rightarrow> string \<Rightarrow> bool \<Rightarrow> py_exc + string \<times> world" where
  "open_file os w path append_mode =
     (let p = abspath os (cwd w) path in
      case open_error os p of
        Some e \<Rightarrow> Inl e
      | None \<Rightarrow>
          Inr (p, w\<lparr>files := (files w)(p \<mapsto> (if append_mode then file_content w p else []))\<rparr>))"

definition write_handle :: "string \<Rightarrow> string \<Rightarrow> world \<Rightarrow> world" where
  "write_handle p s w = w\<lparr>files := (files w)(p \<mapsto> file_content w p @ s)\<rparr>"

text \<open>\<open>with open(output_file, mode) as f: f.write(text)\<close>\<close>

definition write_file :: "system \<Rightarrow> world \<Rightarrow> string \<Rightarrow> bool \<Rightarrow> string \<Rightarrow> py_exc + world" where
  "write_file os w path append_mode s =
     (case open_file os w path append_mode of
        Inl e \<Rightarrow> Inl e
      | Inr (p, w') \<Rightarrow> Inr (write_handle p s w'))"

definition find_executable :: "system \<Rightarrow> world \<Rightarrow> string \<Rightarrow> string option" where
  "find_executable os w command = which_path os (cwd w) command"

subsection \<open>\<open>run_external_command\<close>\<close>

text \<open>
  The parameters \<open>output_file\<close>, \<open>append_output\<close>, \<open>error_file\<close>, \<open>append_error\<close> are
  written \<open>out_file\<close>, \<open>out_append\<close>, \<open>err_file\<close>, \<open>err_append\<close> here.
  The body of the \<open>try\<close>: open the targets that are set, run the program, write the
  captured text of a stream that is not redirected to the session's stream. An exception
  leaves the \<open>try\<close> with the state reached so far. The text of a redirected stream is
  added to its file; when both streams are redirected to one and the same file, two
  handles write to it and the machine gives the content.
\<close>

definition open_target :: "system \<Rightarrow> world \<Rightarrow> string option \<Rightarrow> bool \<Rightarrow> py_exc \<times> world + string option \<times> world" where
  "open_target os w file append_mode =
     (case file of
        None \<Rightarrow> Inr (None, w)
      | Some path \<Rightarrow>
          if path = [] then Inr (None, w)
          else (case open_file os w path append_mode of
                  Inl e \<Rightarrow> Inl (e, w)
                | Inr (p, w') \<Rightarrow> Inr (Some p, w')))"

definition deliver :: "string option \<Rightarrow> (string \<Rightarrow> world \<Rightarrow> world) \<Rightarrow> string \<Rightarrow> world \<Rightarrow> world" where
  "deliver target session_stream s w =
     (case target of None \<Rightarrow> session_stream s w | Some p \<Rightarrow> write_handle p s w)"

definition run_output :: "system \<Rightarrow> string option \<Rightarrow> string option \<Rightarrow> string \<Rightarrow> string \<Rightarrow> world \<Rightarrow> world" where
  "run_output os stdout_target stderr_target out err w =
     (case stdout_target of
        None \<Rightarrow> deliver stderr_target write_stderr err (write_stdout out w)
      | Some p \<Rightarrow>
          if stderr_target = Some p
          then w\<lparr>files := (files w)(p \<mapsto> shared_content os (file_content w p) out err)\<rparr>
          else deliver stderr_target write_stderr err (write_handle p out w))"

definition try_run :: "system \<Rightarrow> world \<Rightarrow> string list \<Rightarrow> string option \<Rightarrow> bool \<Rightarrow> string option \<Rightarrow> bool \<Rightarrow> py_exc \<times> world + world" where
  "try_run os w command_parts out_file out_append err_file err_append =
     (case open_target os w out_file out_append of
        Inl ew \<Rightarrow> Inl ew
      | Inr (stdout_target, w1) \<Rightarrow>
     (case open_target os w1 err_file err_append of
        Inl ew \<Rightarrow> Inl ew
      | Inr (stderr_target, w2) \<Rightarrow>
     (case subprocess_run os (cwd w2) command_parts of
        Inl e \<Rightarrow> Inl (e, w2)
      | Inr (out, err) \<Rightarrow>
          Inr (run_output os stdout_target stderr_target out err w2))))"

text \<open>
  The three \<open>except\<close> clauses, in the order of the source. The first two read
  \<open>command_parts[0]\<close>, which raises \<open>IndexError\<close> on an empty list.
\<close>

definition report_failure :: "string list \<Rightarrow> py_exc \<Rightarrow> world \<Rightarrow> py_exc + world" where
  "report_failure command_parts e w =
     (if fst e = FileNotFoundError then
        (case command_parts of
           [] \<Rightarrow> Inl index_error
         | c # args \<Rightarrow> Inr (write_stderr (println (c @ '': command not found'')) w))
      else if fst e = PermissionError then
        (case command_parts of
           [] \<Rightarrow> Inl index_error
         | c # args \<Rightarrow> Inr (write_stderr (println (c @ '': permission denied'')) w))
      else Inr (write_stderr (println (''Error running command: '' @ snd e)) w))"

definition run_external_command :: "system \<Rightarrow> world \<Rightarrow> string list \<Rightarrow> string option \<Rightarrow> bool \<Rightarrow> string option \<Rightarrow> bool \<Rightarrow> py_exc + world" where
  "run_external_command os w command_parts out_file out_append err_file err_append =
     (case try_run os w command_parts out_file out_append err_file err_append of
        Inr w' \<Rightarrow> Inr w'
      | Inl (e, w') \<Rightarrow> report_failure command_parts e w')"

subsection \<open>\<open>change_directory\<close>\<close>

definition home_or_root :: "system \<Rightarrow> string" where
  "home_or_root os = (case environ_HOME os of None \<Rightarrow> ''/'' | Some h \<Rightarrow> h)"

text \<open>The name that \<open>change_directory\<close> works with after replacing \<open>"~"\<close>.\<close>

definition cd_path :: "system \<Rightarrow> string \<Rightarrow> string" where
  "cd_path os path = (if path = ''~'' then home_or_root os else path)"

definition change_directory :: "system \<Rightarrow> world \<Rightarrow> string \<Rightarrow> py_exc + world" where
  "change_directory os w path =
     (let path = cd_path os path in
      case chdir os (abspath os (cwd w) path) of
        Inr d \<Rightarrow> Inr (w\<lparr>cwd := d\<rparr>)
      | Inl e \<Rightarrow>
          if fst e = FileNotFoundError then
            Inr (write_stderr (println (''cd: '' @ path @ '': No such file or directory'')) w)
          else if fst e = NotADirectoryError then
            Inr (write_stderr (println (''cd: '' @ path @ '': Not a directory'')) w)
          else if fst e = PermissionError then
            Inr (write_stderr (println (''cd: '' @ path @ '': Permission denied'')) w)
          else Inl e)"

subsection \<open>\<open>execute_quoted_executable\<close>\<close>

definition execute_quoted_executable :: "system \<Rightarrow> world \<Rightarrow> string list \<Rightarrow> string option \<Rightarrow> bool \<Rightarrow> string option \<Rightarrow> bool \<Rightarrow> py_exc + world" where
  "execute_quoted_executable os w command_parts out_file out_append err_file err_append =
     (case command_parts of
        [] \<Rightarrow> Inl index_error
      | executable_path # args \<Rightarrow>
          if is_executable_file os (cwd w) executable_path then
            run_external_command os w command_parts out_file out_append err_file err_append
          else
            (let resolved_executable = find_executable os w executable_path in
             if truthy resolved_executable then
               (case resolved_executable of
                  None \<Rightarrow> Inr w
                | Some r \<Rightarrow>
                    run_external_command os w (r # args)
                      out_file out_append err_file err_append)
             else Inr (write_stderr (println (executable_path @ '': command not found'')) w)))"

subsection \<open>\<open>main\<close>\<close>

definition BUILTIN_COMMANDS :: "string list" where
  "BUILTIN_COMMANDS = [''echo'', ''exit'', ''type'', ''pwd'', ''cd'']"

text \<open>\<open>" ".join(xs)\<close>\<close>

fun join_space :: "string list \<Rightarrow> string" where
  "join_space [] = []"
| "join_space [x] = x"
| "join_space (x # y # ys) = x @ '' '' @ join_space (y # ys)"

text \<open>
  \<open>str.strip()\<close> removes, at both ends, the characters for which \<open>str.isspace()\<close>
  holds. A string is its UTF-8 bytes here, so these are the bytes \<open>09\<close>--\<open>0D\<close>,
  \<open>1C\<close>--\<open>1F\<close> and \<open>20\<close>, the two-byte sequences of U+0085 and U+00A0, and the three-byte
  sequences of U+1680, U+2000--U+200A, U+2028, U+2029, U+202F, U+205F and U+3000.
\<close>

definition isspace :: "char \<Rightarrow> bool" where
  "isspace c = (c \<in> set [CHR '' '', CHR 0x09, CHR 0x0A, CHR 0x0B, CHR 0x0C, CHR 0x0D,
                          CHR 0x1C, CHR 0x1D, CHR 0x1E, CHR 0x1F])"

definition isspace2 :: "char \<Rightarrow> char \<Rightarrow> bool" where
  "isspace2 a b = (a = CHR 0xC2 \<and> b \<in> set [CHR 0x85, CHR 0xA0])"

definition isspace3 :: "char \<Rightarrow> char \<Rightarrow> char \<Rightarrow> bool" where
  "isspace3 a b c =
     ((a = CHR 0xE1 \<and> b = CHR 0x9A \<and> c = CHR 0x80)
      \<or> (a = CHR 0xE2 \<and> b = CHR 0x80
          \<and> c \<in> set [CHR 0x80, CHR 0x81, CHR 0x82, CHR 0x83, CHR 0x84, CHR 0x85, CHR 0x86,
                       CHR 0x87, CHR 0x88, CHR 0x89, CHR 0x8A, CHR 0xA8, CHR 0xA9, CHR 0xAF])
      \<or> (a = CHR 0xE2 \<and> b = CHR 0x81 \<and> c = CHR 0x9F)
      \<or> (a = CHR 0xE3 \<and> b = CHR 0x80 \<and> c = CHR 0x80))"

fun lstrip :: "string \<Rightarrow> string" where
  "lstrip [] = []"
| "lstrip [a] = (if isspace a then [] else [a])"
| "lstrip [a, b] =
     (if isspace a then lstrip [b] else if isspace2 a b then [] else [a, b])"
| "lstrip (a # b # c # rest) =
     (if isspace a then lstrip (b # c # rest)
      else if isspace2 a b then lstrip (c # rest)
      else if isspace3 a b c then lstrip rest
      else a # b # c # rest)"

text \<open>The same from the right end, on the reversed string: the last byte comes first.\<close>

fun rstrip_reversed :: "string \<Rightarrow> string" where
  "rstrip_reversed [] = []"
| "rstrip_reversed [a] = (if isspace a then [] else [a])"
| "rstrip_reversed [b, a] =
     (if isspace b then rstrip_reversed [a] else if isspace2 a b then [] else [b, a])"
| "rstrip_reversed (c # b # a # rest) =
     (if isspace c then rstrip_reversed (b # a # rest)
      else if isspace2 b c then rstrip_reversed (a # rest)
      else if isspace3 a b c then rstrip_reversed rest
      else c # b # a # rest)"

definition strip :: "string \<Rightarrow> string" where
  "strip s = rev (rstrip_reversed (rev (lstrip s)))"

text \<open>
  What one pass through the body of \<open>while True\<close> ends in: the next iteration,
  \<open>sys.exit\<close> with a status, or an exception that no \<open>except\<close> clause of \<open>main\<close> catches
  (\<open>main\<close> catches \<open>EOFError\<close> and \<open>KeyboardInterrupt\<close> only), which ends the program.
\<close>

datatype outcome = Next world | Exited int world | Crashed py_exc world

definition continue_with :: "world \<Rightarrow> py_exc + world \<Rightarrow> outcome" where
  "continue_with w r = (case r of Inr w' \<Rightarrow> Next w' | Inl e \<Rightarrow> Crashed e w)"

text \<open>The output of \<open>echo\<close> and \<open>pwd\<close>: to the output file when it is set, else printed.\<close>

definition write_output :: "system \<Rightarrow> world \<Rightarrow> redirection \<Rightarrow> string \<Rightarrow> outcome" where
  "write_output os w r output =
     (if truthy (output_file r) then
        (case output_file r of
           None \<Rightarrow> Next w
         | Some path \<Rightarrow> continue_with w (write_file os w path (append_output r) (output @ [newline])))
      else Next (write_stdout (println output) w))"

text \<open>
  The part of the loop body after \<open>handle_redirection\<close>: \<open>command_parts\<close> is the clean
  command and \<open>r\<close> holds the redirection targets.
\<close>

definition dispatch :: "system \<Rightarrow> world \<Rightarrow> string list \<Rightarrow> redirection \<Rightarrow> outcome" where
  "dispatch os w command_parts r =
     (case command_parts of
        [] \<Rightarrow> Next w
      | c # args \<Rightarrow>
          if c = ''exit'' \<and> length command_parts = 2 \<and> command_parts ! 1 = ''0'' then Exited 0 w
          else if c = ''echo'' then write_output os w r (join_space args)
          else if c = ''type'' then
            (case args of
               [] \<Rightarrow> Crashed index_error w
             | cmd_to_check # others \<Rightarrow>
                 if cmd_to_check \<in> set BUILTIN_COMMANDS then
                   Next (write_stdout (println (cmd_to_check @ '' is a shell builtin'')) w)
                 else
                   (let executable_path = find_executable os w cmd_to_check in
                    if truthy executable_path then
                      (case executable_path of
                         None \<Rightarrow> Next w
                       | Some p \<Rightarrow> Next (write_stdout (println (cmd_to_check @ '' is '' @ p)) w))
                    else Next (write_stderr (println (cmd_to_check @ '': not found'')) w)))
          else if c = ''pwd'' then
            (case getcwd os w of
               Inl e \<Rightarrow> Crashed e w
             | Inr output \<Rightarrow> write_output os w r output)
          else if c = ''cd'' then
            (if length command_parts > 1 then
               continue_with w (change_directory os w (command_parts ! 1))
             else
               (case chdir os (home_or_root os) of
                  Inr d \<Rightarrow> Next (w\<lparr>cwd := d\<rparr>)
                | Inl e \<Rightarrow> Crashed e w))
          else
            continue_with w
              (execute_quoted_executable os w command_parts
                 (output_file r) (append_output r) (error_file r) (append_error r)))"

text \<open>One pass through the loop body on the line that \<open>input()\<close> returned.\<close>

definition process_line :: "system \<Rightarrow> world \<Rightarrow> string \<Rightarrow> outcome" where
  "process_line os w line =
     (let w0 = write_stdout ''$ '' w;
          user_input = strip line in
      if user_input = [] then Next w0
      else
        (let (command_parts, message) = parse_input user_input;
             w1 = write_stderr message w0 in
         if command_parts = [] then Next w1
         else
           (let r = handle_redirection command_parts;
                w2 = write_stderr (printed r) w1 in
            dispatch os w2 (clean_command r) r)))"

text \<open>
  The loop over the lines of standard input. When the input is exhausted \<open>input()\<close>
  raises \<open>EOFError\<close> after the prompt was written, and \<open>main\<close> exits with status 0.
\<close>

fun main :: "system \<Rightarrow> world \<Rightarrow> string list \<Rightarrow> outcome" where
  "main os w [] = Exited 0 (write_stdout ''$ '' w)"
| "main os w (line # lines) =
     (case process_line os w line of
        Next w' \<Rightarrow> main os w' lines
      | Exited n w' \<Rightarrow> Exited n w'
      | Crashed e w' \<Rightarrow> Crashed e w')"

section \<open>Vocabulary of the claims\<close>

text \<open>The stream that a directive token names, as the syntax error message words it.\<close>

definition stream_word :: "string \<Rightarrow> string" where
  "stream_word d = (if d \<in> set error_directives then ''error'' else ''output'')"

text \<open>
  The argument vector that \<open>execute_quoted_executable\<close> hands to \<open>run_external_command\<close>:
  the command as typed when its name is an executable file, the command with the name
  replaced by the search-path result otherwise, \<open>None\<close> when neither resolves.
\<close>

definition resolved_command :: "system \<Rightarrow> world \<Rightarrow> string list \<Rightarrow> string list option" where
  "resolved_command os w command_parts =
     (case command_parts of
        [] \<Rightarrow> None
      | executable_path # args \<Rightarrow>
          if is_executable_file os (cwd w) executable_path then Some command_parts
          else (case find_executable os w executable_path of
                  None \<Rightarrow> None
                | Some r \<Rightarrow> if r = [] then None else Some (r # args)))"


text \<open>The diagnostic of \<open>run_external_command\<close> for an exception of the launch.\<close>

definition launch_diagnostic :: "string \<Rightarrow> py_exc \<Rightarrow> string" where
  "launch_diagnostic name e =
     (if fst e = FileNotFoundError then name @ '': command not found''
      else if fst e = PermissionError then name @ '': permission denied''
      else ''Error running command: '' @ snd e)"

section \<open>A machine to run examples on\<close>

text \<open>
  A small machine: \<open>ls\<close> is found on the search path; \<open>prog\<close> is an executable file of
  the working directory, which is not on the search path, so that starting it by name
  fails; \<open>/home/user\<close> and \<open>/\<close> are directories, \<open>/etc/passwd\<close> is a file, \<open>/root\<close> may not
  be entered and \<open>/loop\<close> is a symbolic link to itself; every file can be opened for
  writing.
\<close>

definition demo_abspath :: "string \<Rightarrow> string \<Rightarrow> string" where
  "demo_abspath dir path =
     (case path of
        [] \<Rightarrow> dir
      | c # cs \<Rightarrow> if c = CHR ''/'' then path else if dir = ''/'' then dir @ path else dir @ ''/'' @ path)"

definition demo_chdir :: "string \<Rightarrow> py_exc + string" where
  "demo_chdir p =
     (if p = ''/'' \<or> p = ''/home/user'' then Inr p
      else if p = ''/etc/passwd'' then Inl (NotADirectoryError, ''[Errno 20] Not a directory'')
      else if p = ''/root'' then Inl (PermissionError, ''[Errno 13] Permission denied'')
      else if p = ''/loop'' then Inl (OtherException, ''[Errno 40] Too many levels of symbolic links'')
      else Inl (FileNotFoundError, ''[Errno 2] No such file or directory''))"

definition demo_run :: "string \<Rightarrow> string list \<Rightarrow> py_exc + string \<times> string" where
  "demo_run dir argv =
     (if argv = [''/bin/ls''] then Inr (println ''prog'', [])
      else if argv = [''/bin/ls'', ''nowhere''] then Inr ([], println ''ls: nowhere: No such file'')
      else if argv = [''/bin/locked''] then Inl (PermissionError, ''[Errno 13] Permission denied'')
      else if argv = [''/bin/broken''] then Inl (OtherException, ''[Errno 8] Exec format error'')
      else Inl (FileNotFoundError, ''[Errno 2] No such file or directory''))"

definition demo_which :: "string \<Rightarrow> string \<Rightarrow> string option" where
  "demo_which dir name =
     (if name \<in> set [''ls'', ''locked'', ''broken'', ''gone''] then Some (''/bin/'' @ name) else None)"

definition demo_system :: system where
  "demo_system =
     \<lparr>which_path = demo_which,
      is_executable_file = (\<lambda>dir p. p = ''prog''),
      abspath = demo_abspath,
      chdir = demo_chdir,
      open_error = (\<lambda>p. None),
      subprocess_run = demo_run,
      shared_content = (\<lambda>old out err. old @ out @ err),
      getcwd_error = (\<lambda>dir. None),
      environ_HOME = Some ''/home/user''\<rparr>"

definition demo_world :: world where
  "demo_world = \<lparr>cwd = ''/home/user'', files = Map.empty, stdout = [], stderr = []\<rparr>"

section \<open>Properties of the extractor\<close>

lemma redirection_loop_clean:
  "clean_command (redirection_loop ts st) = clean_command st @ clean_tokens (scan ts)"
  by (induction ts st rule: redirection_loop.induct)
     (simp_all add: is_directive_def output_directives_def error_directives_def)

lemma redirection_loop_output_file:
  "output_file (redirection_loop ts st) =
     (case last_directive output_directives (scan ts) of
        None \<Rightarrow> output_file st | Some (d, f) \<Rightarrow> Some f)"
  by (induction ts st rule: redirection_loop.induct)
     (auto simp add: is_directive_def output_directives_def error_directives_def
        split: option.splits)

lemma redirection_loop_append_output:
  "append_output (redirection_loop ts st) =
     (case last_directive output_directives (scan ts) of
        None \<Rightarrow> append_output st | Some (d, f) \<Rightarrow> d \<in> set append_directives)"
  by (induction ts st rule: redirection_loop.induct)
     (auto simp add: is_directive_def output_directives_def error_directives_def
        append_directives_def split: option.splits)

lemma redirection_loop_error_file:
  "error_file (redirection_loop ts st) =
     (case last_directive error_directives (scan ts) of
        None \<Rightarrow> error_file st | Some (d, f) \<Rightarrow> Some f)"
  by (induction ts st rule: redirection_loop.induct)
     (auto simp add: is_directive_def output_directives_def error_directives_def
        split: option.splits)

lemma redirection_loop_append_error:
  "append_error (redirection_loop ts st) =
     (case last_directive error_directives (scan ts) of
        None \<Rightarrow> append_error st | Some (d, f) \<Rightarrow> d \<in> set append_directives)"
  by (induction ts st rule: redirection_loop.induct)
     (auto simp add: is_directive_def output_directives_def error_directives_def
        append_directives_def split: option.splits)

text \<open>
  C2. For every token sequence the extractor scans left to right: a directive token
  followed by a token is consumed together with that token (its filename) and neither is
  a clean token, the other tokens are the clean tokens in their original order, and for
  each stream the last directive gives the file and the append flag. In particular
  \<open>["echo", "hi", ">", "out.txt"]\<close> gives clean tokens \<open>["echo", "hi"]\<close>, output target
  \<open>"out.txt"\<close> and append false.
\<close>

theorem handle_redirection_scan:
  "clean_command (handle_redirection ts) = clean_tokens (scan ts)
   \<and> output_file (handle_redirection ts) = target_of (last_directive output_directives (scan ts))
   \<and> append_output (handle_redirection ts) = append_of (last_directive output_directives (scan ts))
   \<and> error_file (handle_redirection ts) = target_of (last_directive error_directives (scan ts))
   \<and> append_error (handle_redirection ts) = append_of (last_directive error_directives (scan ts))
   \<and> clean_command (handle_redirection [''echo'', ''hi'', ''>'', ''out.txt'']) = [''echo'', ''hi'']
   \<and> output_file (handle_redirection [''echo'', ''hi'', ''>'', ''out.txt'']) = Some ''out.txt''
   \<and> append_output (handle_redirection [''echo'', ''hi'', ''>'', ''out.txt'']) = False"
  by (simp add: handle_redirection_def no_redirection_def redirection_loop_clean
      redirection_loop_output_file redirection_loop_append_output
      redirection_loop_error_file redirection_loop_append_error
      target_of_def append_of_def is_directive_def output_directives_def
      error_directives_def split: option.splits)

lemma println_not_empty: "println s \<noteq> []"
  by (simp add: println_def)

text \<open>
  As long as the scan of \<open>ts\<close> printed nothing, its last token was not a directive left
  without a filename, and the scan of \<open>ts @ us\<close> goes on with \<open>us\<close> from the state reached.
\<close>

lemma redirection_loop_append:
  "printed (redirection_loop ts st) = printed st \<Longrightarrow>
   redirection_loop (ts @ us) st = redirection_loop us (redirection_loop ts st)"
proof (induction ts st rule: redirection_loop.induct)
  case (1 st)
  then show ?case by simp
next
  case (2 t st)
  then show ?case
    by (cases us) (auto simp add: println_not_empty split: if_splits)
next
  case (3 t f rest st)
  then show ?case by (auto split: if_splits)
qed

lemma redirection_loop_single:
  "is_directive d \<Longrightarrow>
   redirection_loop [d] st =
     st\<lparr>printed := printed st @ println (''Syntax error: Missing file for '' @ stream_word d @ '' redirection'')\<rparr>"
  by (auto simp add: is_directive_def output_directives_def error_directives_def stream_word_def)

text \<open>
  In the other case, when the scan of \<open>ts\<close> ends in a directive left without a filename,
  a token added at the end is taken as that filename, whatever it is: nothing is
  reported and the token is not a clean token.
\<close>

lemma redirection_loop_filename:
  "printed (redirection_loop ts st) \<noteq> printed st \<Longrightarrow>
   printed (redirection_loop (ts @ [x]) st) = printed st
   \<and> clean_command (redirection_loop (ts @ [x]) st) = clean_command (redirection_loop ts st)"
proof (induction ts st rule: redirection_loop.induct)
  case (1 st)
  then show ?case by simp
next
  case (2 t st)
  then show ?case by (auto split: if_splits)
next
  case (3 t f rest st)
  then show ?case by (auto split: if_splits)
qed

lemma directive_as_filename:
  "printed (handle_redirection pre) \<noteq> [] \<Longrightarrow>
   printed (handle_redirection (pre @ [x])) = []
   \<and> clean_command (handle_redirection (pre @ [x])) = clean_command (handle_redirection pre)"
  using redirection_loop_filename [of pre no_redirection x]
  by (simp add: handle_redirection_def no_redirection_def)

text \<open>
  C8. A token sequence that ends in a redirection directive with no filename after it:
  \<open>pre @ [d]\<close>, where \<open>d\<close> is a directive token and the tokens \<open>pre\<close> before it are
  complete (their own scan reports no missing filename, so \<open>d\<close> is not the filename of a
  directive ending \<open>pre\<close>). The extractor reports the syntax error for the stream of
  \<open>d\<close>, and everything else it returns is what it returns for \<open>pre\<close>: the clean tokens
  without \<open>d\<close>, and both targets and append flags as assigned before.
\<close>

theorem dangling_directive_reported:
  assumes "is_directive d" and "printed (handle_redirection pre) = []"
  shows "handle_redirection (pre @ [d]) =
           (handle_redirection pre)
             \<lparr>printed := println (''Syntax error: Missing file for '' @ stream_word d @ '' redirection'')\<rparr>"
proof -
  have "printed (redirection_loop pre no_redirection) = printed no_redirection"
    using assms(2) by (simp add: handle_redirection_def no_redirection_def)
  then have "redirection_loop (pre @ [d]) no_redirection
      = redirection_loop [d] (redirection_loop pre no_redirection)"
    by (rule redirection_loop_append)
  also have "\<dots> = (redirection_loop pre no_redirection)
      \<lparr>printed := printed (redirection_loop pre no_redirection)
         @ println (''Syntax error: Missing file for '' @ stream_word d @ '' redirection'')\<rparr>"
    using assms(1) by (rule redirection_loop_single)
  finally show ?thesis
    using assms(2) by (simp add: handle_redirection_def)
qed

theorem dangling_directive_reported_witness:
  "handle_redirection [''echo'', ''hi'', ''>'', ''f'', ''2>>''] =
     \<lparr>output_file = Some ''f'', append_output = False, error_file = None, append_error = False,
      clean_command = [''echo'', ''hi''],
      printed = println ''Syntax error: Missing file for error redirection''\<rparr>"
  using dangling_directive_reported [of "''2>>''" "[''echo'', ''hi'', ''>'', ''f'']"]
  by (simp add: is_directive_def output_directives_def error_directives_def stream_word_def
      handle_redirection_def no_redirection_def)

section \<open>Properties of the dispatch\<close>

text \<open>
  C3. On a clean command whose first token is \<open>exit\<close>, the session exits with status 0
  exactly when the arguments are the single string \<open>"0"\<close>; with any other arguments the
  command is handed to \<open>execute_quoted_executable\<close>, the path of external commands, and
  the session does not exit there.
\<close>

theorem exit_only_with_zero:
  "dispatch os w (''exit'' # args) r =
     (if args = [''0''] then Exited 0 w
      else continue_with w
             (execute_quoted_executable os w (''exit'' # args)
                (output_file r) (append_output r) (error_file r) (append_error r)))"
proof (cases args)
  case Nil
  then show ?thesis by (simp add: dispatch_def)
next
  case (Cons a as)
  then show ?thesis by (cases as) (simp_all add: dispatch_def)
qed

text \<open>
  C5, at the input \<open>type cd > out.txt\<close>: the extractor sets the output target
  \<open>out.txt\<close>, and \<open>type\<close> prints its answer to the session's standard output all the
  same; no file is opened or written.
\<close>

theorem type_ignores_output_target:
  "output_file (handle_redirection (fst (parse_input ''type cd > out.txt''))) = Some ''out.txt''
   \<and> process_line os w ''type cd > out.txt''
     = Next (write_stdout (println ''cd is a shell builtin'') (write_stdout ''$ '' w))"
  by (simp add: process_line_def strip_def isspace_def isspace2_def isspace3_def parse_input_def shlex_split_def
      whitespace_def quotes_def escape_def handle_redirection_def no_redirection_def
      dispatch_def write_stderr_def BUILTIN_COMMANDS_def)

text \<open>
  C1, at the input line \<open>type\<close>: reading \<open>command_parts[1]\<close> raises \<open>IndexError\<close>, which
  no \<open>except\<close> clause catches; the program ends there, on any machine and in any state,
  and the next line is never read. A failure of \<open>cd\<close> outside the three classes that
  \<open>change_directory\<close> catches ends the program in the same way: on the example machine,
  \<open>cd /loop\<close>.
\<close>

theorem type_without_argument_ends_session:
  "main os w [''type'', ''echo hi''] = Crashed index_error (write_stdout ''$ '' w)
   \<and> main demo_system demo_world [''cd /loop'', ''pwd'']
     = Crashed (OtherException, ''[Errno 40] Too many levels of symbolic links'')
         (write_stdout ''$ '' demo_world)"
  by (simp add: process_line_def strip_def isspace_def isspace2_def isspace3_def parse_input_def shlex_split_def
      whitespace_def quotes_def escape_def handle_redirection_def no_redirection_def
      dispatch_def write_stderr_def change_directory_def continue_with_def cd_path_def
      demo_system_def demo_world_def demo_chdir_def demo_abspath_def)

lemma execute_quoted_executable_resolved:
  "execute_quoted_executable os w (c # args) a b d e =
     (case resolved_command os w (c # args) of
        Some argv \<Rightarrow> run_external_command os w argv a b d e
      | None \<Rightarrow> Inr (write_stderr (println (c @ '': command not found'')) w))"
  by (cases "find_executable os w c")
     (simp_all add: execute_quoted_executable_def resolved_command_def)

text \<open>
  C4 fails on the code. On the example machine \<open>prog\<close> is an executable file of the
  working directory that is not on the search path: \<open>type prog\<close> reports \<open>not found\<close>,
  while the command \<open>prog\<close> resolves, by the direct check, and is run as typed.
\<close>

theorem type_not_resolver_counterexample:
  "dispatch demo_system demo_world [''type'', ''prog''] no_redirection
     = Next (write_stderr (println ''prog: not found'') demo_world)
   \<and> resolved_command demo_system demo_world [''prog''] = Some [''prog'']
   \<and> execute_quoted_executable demo_system demo_world [''prog''] None False None False
     = run_external_command demo_system demo_world [''prog''] None False None False"
  by (simp add: dispatch_def BUILTIN_COMMANDS_def find_executable_def demo_system_def
      demo_which_def resolved_command_def execute_quoted_executable_def)

text \<open>
  C4 as the code has it. For a name that is not a built-in, \<open>type\<close> asks the search
  path only: it prints \<open>name is path\<close> to standard output when the search finds a path,
  and \<open>name: not found\<close> to standard error otherwise. Running \<open>name\<close> resolves in one
  more case, when \<open>name\<close> itself is an existing executable regular file.
\<close>

theorem type_searches_path_only:
  assumes "name \<notin> set BUILTIN_COMMANDS"
  shows "dispatch os w (''type'' # name # others) r =
           (case find_executable os w name of
              None \<Rightarrow> Next (write_stderr (println (name @ '': not found'')) w)
            | Some p \<Rightarrow>
                if p = [] then Next (write_stderr (println (name @ '': not found'')) w)
                else Next (write_stdout (println (name @ '' is '' @ p)) w))
         \<and> (resolved_command os w [name] \<noteq> None
              \<longleftrightarrow> is_executable_file os (cwd w) name \<or> truthy (find_executable os w name))"
  using assms
  by (cases "find_executable os w name")
     (simp_all add: dispatch_def resolved_command_def)

theorem type_searches_path_only_witness:
  "dispatch demo_system demo_world [''type'', ''ls''] no_redirection
     = Next (write_stdout (println ''ls is /bin/ls'') demo_world)
   \<and> dispatch demo_system demo_world [''type'', ''prog''] no_redirection
     = Next (write_stderr (println ''prog: not found'') demo_world)
   \<and> resolved_command demo_system demo_world [''prog''] \<noteq> None"
  using type_searches_path_only [of "''ls''" demo_system demo_world "[]" no_redirection]
    type_searches_path_only [of "''prog''" demo_system demo_world "[]" no_redirection]
  by (simp add: BUILTIN_COMMANDS_def find_executable_def demo_system_def demo_which_def)

section \<open>Properties of \<open>cd\<close> and of external commands\<close>



text \<open>
  C9. When the launch of an external program raises, with the redirection targets (if
  any) opened before, \<open>run_external_command\<close> returns normally, having written one line
  to standard error: \<open>name: command not found\<close> for \<open>FileNotFoundError\<close>,
  \<open>name: permission denied\<close> for \<open>PermissionError\<close>, and
  \<open>Error running command: detail\<close> for every other exception; so the session goes on to
  the next line.
\<close>

theorem launch_failures_classified:
  assumes "open_target os w out_file out_append = Inr (t1, w1)"
    and "open_target os w1 err_file err_append = Inr (t2, w2)"
    and "subprocess_run os (cwd w2) (c # args) = Inl e"
  shows "run_external_command os w (c # args) out_file out_append err_file err_append
           = Inr (write_stderr (println (launch_diagnostic c e)) w2)
         \<and> continue_with w
              (run_external_command os w (c # args) out_file out_append err_file err_append)
           = Next (write_stderr (println (launch_diagnostic c e)) w2)"
  using assms
  by (simp add: run_external_command_def try_run_def report_failure_def
      launch_diagnostic_def continue_with_def)

theorem launch_failures_classified_witness:
  "run_external_command demo_system demo_world [''/bin/gone''] None False None False
     = Inr (write_stderr (println ''/bin/gone: command not found'') demo_world)
   \<and> run_external_command demo_system demo_world [''/bin/locked''] None False None False
     = Inr (write_stderr (println ''/bin/locked: permission denied'') demo_world)
   \<and> run_external_command demo_system demo_world [''/bin/broken''] None False None False
     = Inr (write_stderr (println ''Error running command: [Errno 8] Exec format error'') demo_world)"
proof -
  have opened: "open_target demo_system demo_world None False = Inr (None, demo_world)"
    by (simp add: open_target_def)
  have gone: "subprocess_run demo_system (cwd demo_world) [''/bin/gone'']
      = Inl (FileNotFoundError, ''[Errno 2] No such file or directory'')"
    by (simp add: demo_system_def demo_run_def)
  have locked: "subprocess_run demo_system (cwd demo_world) [''/bin/locked'']
      = Inl (PermissionError, ''[Errno 13] Permission denied'')"
    by (simp add: demo_system_def demo_run_def)
  have broken: "subprocess_run demo_system (cwd demo_world) [''/bin/broken'']
      = Inl (OtherException, ''[Errno 8] Exec format error'')"
    by (simp add: demo_system_def demo_run_def)
  show ?thesis
    using launch_failures_classified [OF opened opened gone]
      launch_failures_classified [OF opened opened locked]
      launch_failures_classified [OF opened opened broken]
    by (simp add: launch_diagnostic_def)
qed

section \<open>Properties of the tokenizer\<close>

text \<open>The tokens returned so far are a prefix of the result.\<close>

lemma read_tokens_acc:
  "read_tokens st q es tok (before @ acc) s =
     (case read_tokens st q es tok acc s of Inl e \<Rightarrow> Inl e | Inr ts \<Rightarrow> Inr (before @ ts))"
proof (induction s arbitrary: st q es tok acc)
  case Nil
  then show ?case by (simp split: lex_state.splits)
next
  case (Cons c s)
  have emit: "\<And>st q es tok x. read_tokens st q es tok (before @ acc @ [x]) s =
      (case read_tokens st q es tok (acc @ [x]) s of Inl e \<Rightarrow> Inl e | Inr ts \<Rightarrow> Inr (before @ ts))"
    by (rule Cons.IH)
  show ?case
    by (cases st) (simp_all add: emit Cons.IH)
qed

text \<open>\<open>escapedstate\<close> is only read in the escape state, and is assigned on the way there.\<close>

lemma read_tokens_escapedstate:
  "\<forall>e. st \<noteq> St_escape e \<Longrightarrow>
   read_tokens st q es tok acc s = read_tokens st q es' tok acc s"
proof (induction s arbitrary: st q tok acc)
  case Nil
  then show ?case by (cases st) simp_all
next
  case (Cons c s)
  show ?case
  proof (cases st)
    case St_space
    then show ?thesis using Cons.IH [of St_space] Cons.IH [of St_word] Cons.IH [of "St_quote c"] by simp
  next
    case St_word
    then show ?thesis using Cons.IH [of St_space] Cons.IH [of St_word] Cons.IH [of "St_quote c"] by simp
  next
    case (St_quote x3)
    then show ?thesis using Cons.IH [of St_word] Cons.IH [of "St_quote x3"] by simp
  next
    case (St_escape x4)
    then show ?thesis using Cons.prems by simp
  qed
qed

text \<open>
  A whitespace character after a text that tokenizes without error ends the token in
  progress, and the lexer is between tokens again.
\<close>

lemma read_tokens_whitespace:
  "read_tokens st q es tok acc pre = Inr ts \<Longrightarrow> c \<in> set whitespace \<Longrightarrow>
   read_tokens st q es tok acc (pre @ c # rest) = read_tokens St_space False St_space [] ts rest"
proof (induction pre arbitrary: st q es tok acc)
  case Nil
  then show ?case
    using read_tokens_escapedstate [of St_space False es "[]" acc rest St_space]
    by (cases st) (auto split: if_splits)
next
  case (Cons a pre)
  then show ?case
    by (cases st) (auto split: if_splits)
qed


lemma read_tokens_after:
  "read_tokens St_space False St_space [] acc s =
     (case shlex_split s of Inl e \<Rightarrow> Inl e | Inr ts \<Rightarrow> Inr (acc @ ts))"
  using read_tokens_acc [of St_space False St_space "[]" acc "[]" s]
  by (simp add: shlex_split_def)

lemma shlex_split_whitespace:
  assumes "shlex_split pre = Inr ts" and "c \<in> set whitespace"
  shows "shlex_split (pre @ c # rest) =
           (case shlex_split rest of Inl e \<Rightarrow> Inl e | Inr us \<Rightarrow> Inr (ts @ us))"
proof -
  have "shlex_split (pre @ c # rest) = read_tokens St_space False St_space [] ts rest"
    unfolding shlex_split_def
    by (rule read_tokens_whitespace [OF assms(1) [unfolded shlex_split_def] assms(2)])
  also have "\<dots> = (case shlex_split rest of Inl e \<Rightarrow> Inl e | Inr us \<Rightarrow> Inr (ts @ us))"
    by (rule read_tokens_after)
  finally show ?thesis .
qed

lemma directive_cases:
  "is_directive op \<Longrightarrow>
   op = ''>'' \<or> op = ''1>'' \<or> op = ''>>'' \<or> op = ''1>>'' \<or> op = ''2>'' \<or> op = ''2>>''"
  by (simp add: is_directive_def output_directives_def error_directives_def)

lemma quote_cases: "q \<in> set quotes \<Longrightarrow> q = single_quote \<or> q = double_quote"
  by (simp add: quotes_def)

lemma quoted_directive_read:
  assumes "is_directive op" and "q \<in> set quotes"
  shows "read_tokens St_space False St_space [] [] (q # op @ q # CHR '' '' # rest)
      = read_tokens St_space False St_space [] [op] rest"
  using directive_cases [OF assms(1)] quote_cases [OF assms(2)]
  by (elim disjE) (simp_all add: whitespace_def quotes_def escape_def escapedquotes_def)

lemma bare_directive_read:
  assumes "is_directive op"
  shows "read_tokens St_space False St_space [] [] (op @ CHR '' '' # rest)
      = read_tokens St_space False St_space [] [op] rest"
  using directive_cases [OF assms(1)]
  by (elim disjE) (simp_all add: whitespace_def quotes_def escape_def escapedquotes_def)

lemma quoted_directive_token:
  assumes "is_directive op" and "q \<in> set quotes"
  shows "shlex_split (q # op @ q # CHR '' '' # rest) =
           (case shlex_split rest of Inl e \<Rightarrow> Inl e | Inr us \<Rightarrow> Inr ([op] @ us))"
proof -
  have "shlex_split (q # op @ q # CHR '' '' # rest)
      = read_tokens St_space False St_space [] [] (q # op @ q # CHR '' '' # rest)"
    by (simp add: shlex_split_def)
  also have "\<dots> = read_tokens St_space False St_space [] [op] rest"
    using assms by (rule quoted_directive_read)
  also have "\<dots> = (case shlex_split rest of Inl e \<Rightarrow> Inl e | Inr us \<Rightarrow> Inr ([op] @ us))"
    by (rule read_tokens_after)
  finally show ?thesis .
qed

lemma bare_directive_token:
  assumes "is_directive op"
  shows "shlex_split (op @ CHR '' '' # rest) =
           (case shlex_split rest of Inl e \<Rightarrow> Inl e | Inr us \<Rightarrow> Inr ([op] @ us))"
proof -
  have "shlex_split (op @ CHR '' '' # rest)
      = read_tokens St_space False St_space [] [] (op @ CHR '' '' # rest)"
    by (simp add: shlex_split_def)
  also have "\<dots> = read_tokens St_space False St_space [] [op] rest"
    using assms by (rule bare_directive_read)
  also have "\<dots> = (case shlex_split rest of Inl e \<Rightarrow> Inl e | Inr us \<Rightarrow> Inr ([op] @ us))"
    by (rule read_tokens_after)
  finally show ?thesis .
qed

lemma clean_command_no_redirection: "clean_command no_redirection = []"
  by (simp add: no_redirection_def)

lemma scan_after_directive:
  "is_directive op \<Longrightarrow> clean_tokens (scan (op # ts)) = clean_tokens (scan (tl ts))"
  by (cases ts) simp_all

text \<open>
  C10. Quoting does not protect a redirection operator. Take any line in which a
  directive token stands in single or double quotes as a word of its own, between a text
  \<open>pre\<close> and a text \<open>post\<close> that tokenize without error: the tokenizer returns the
  operator without its quotes, exactly the tokens of the line with the bare operator, so
  the extractor cannot tell the two lines apart. When the tokens before the operator are
  complete, the operator and the token after it are taken out of the clean command. In
  particular the line \<open>echo '>' f\<close> writes the empty line of \<open>echo\<close> without arguments
  to the file \<open>f\<close> and prints nothing but the prompt.
\<close>

theorem quoted_operator_still_redirects:
  assumes "shlex_split pre = Inr ts1" and "shlex_split post = Inr ts2"
    and "is_directive op" and "q \<in> set quotes"
  shows "parse_input (pre @ '' '' @ [q] @ op @ [q] @ '' '' @ post) = (ts1 @ op # ts2, [])
         \<and> parse_input (pre @ '' '' @ op @ '' '' @ post) = (ts1 @ op # ts2, [])
         \<and> (printed (handle_redirection ts1) = [] \<longrightarrow>
              clean_command (handle_redirection (ts1 @ op # ts2))
                = clean_command (handle_redirection ts1) @ clean_command (handle_redirection (tl ts2)))
         \<and> process_line os w (''echo '' @ [single_quote] @ ''>'' @ [single_quote] @ '' f'')
             = continue_with (write_stdout ''$ '' w)
                 (write_file os (write_stdout ''$ '' w) ''f'' False [newline])"
proof -
  have space: "CHR '' '' \<in> set whitespace"
    by (simp add: whitespace_def)
  have "shlex_split (pre @ CHR '' '' # q # op @ q # CHR '' '' # post)
      = (case shlex_split (q # op @ q # CHR '' '' # post) of Inl e \<Rightarrow> Inl e | Inr us \<Rightarrow> Inr (ts1 @ us))"
    using assms(1) space by (rule shlex_split_whitespace)
  then have quoted: "shlex_split (pre @ CHR '' '' # q # op @ q # CHR '' '' # post) = Inr (ts1 @ op # ts2)"
    by (simp add: quoted_directive_token [OF assms(3) assms(4)] assms(2))
  have "shlex_split (pre @ CHR '' '' # op @ CHR '' '' # post)
      = (case shlex_split (op @ CHR '' '' # post) of Inl e \<Rightarrow> Inl e | Inr us \<Rightarrow> Inr (ts1 @ us))"
    using assms(1) space by (rule shlex_split_whitespace)
  then have bare: "shlex_split (pre @ CHR '' '' # op @ CHR '' '' # post) = Inr (ts1 @ op # ts2)"
    by (simp add: bare_directive_token [OF assms(3)] assms(2))
  have consumed: "clean_command (handle_redirection (ts1 @ op # ts2))
      = clean_command (handle_redirection ts1) @ clean_command (handle_redirection (tl ts2))"
    if "printed (handle_redirection ts1) = []"
  proof -
    have "printed (redirection_loop ts1 no_redirection) = printed no_redirection"
      using that by (simp add: handle_redirection_def no_redirection_def)
    then have "redirection_loop (ts1 @ op # ts2) no_redirection
        = redirection_loop (op # ts2) (redirection_loop ts1 no_redirection)"
      by (rule redirection_loop_append)
    then show ?thesis
      by (simp add: handle_redirection_def redirection_loop_clean clean_command_no_redirection
          scan_after_directive [OF assms(3)] del: scan.simps)
  qed
  have example: "process_line os w (''echo '' @ [single_quote] @ ''>'' @ [single_quote] @ '' f'')
      = continue_with (write_stdout ''$ '' w)
          (write_file os (write_stdout ''$ '' w) ''f'' False [newline])"
    by (simp add: process_line_def strip_def isspace_def isspace2_def isspace3_def parse_input_def shlex_split_def
        whitespace_def quotes_def escape_def escapedquotes_def handle_redirection_def
        no_redirection_def dispatch_def write_stderr_def write_output_def Let_def)
  from quoted bare consumed example show ?thesis
    by (simp add: parse_input_def)
qed

theorem quoted_operator_still_redirects_witness:
  "parse_input (''echo hi '' @ [double_quote] @ ''2>>'' @ [double_quote] @ '' log x'')
     = ([''echo'', ''hi'', ''2>>'', ''log'', ''x''], [])
   \<and> parse_input ''echo hi 2>> log x'' = ([''echo'', ''hi'', ''2>>'', ''log'', ''x''], [])
   \<and> clean_command (handle_redirection [''echo'', ''hi'', ''2>>'', ''log'', ''x''])
     = [''echo'', ''hi'', ''x'']
   \<and> process_line demo_system demo_world (''echo '' @ [single_quote] @ ''>'' @ [single_quote] @ '' f'')
     = Next \<lparr>cwd = ''/home/user'', files = [''/home/user/f'' \<mapsto> [newline]],
         stdout = ''$ '', stderr = []\<rparr>"
proof -
  have pre: "shlex_split ''echo hi'' = Inr [''echo'', ''hi'']"
    by (simp add: shlex_split_def whitespace_def quotes_def escape_def)
  have post: "shlex_split ''log x'' = Inr [''log'', ''x'']"
    by (simp add: shlex_split_def whitespace_def quotes_def escape_def)
  have op: "is_directive ''2>>''"
    by (simp add: is_directive_def output_directives_def error_directives_def)
  have q: "double_quote \<in> set quotes"
    by (simp add: quotes_def)
  show ?thesis
    using quoted_operator_still_redirects [OF pre post op q, of demo_system demo_world]
    by (simp add: handle_redirection_def no_redirection_def continue_with_def write_file_def
        open_file_def write_handle_def file_content_def write_stdout_def demo_system_def
        demo_world_def demo_abspath_def Let_def)
qed

text \<open>Inside quotes, characters other than the quote and the backslash are literal.\<close>

lemma read_tokens_in_quotes:
  "q \<notin> set u \<Longrightarrow> backslash \<notin> set u \<Longrightarrow>
   read_tokens (St_quote q) quoted es tok acc (u @ c # rest)
     = read_tokens (St_quote q) True es (tok @ u) acc (c # rest)"
proof (induction u arbitrary: quoted tok)
  case Nil
  then show ?case by simp
next
  case (Cons a u)
  from Cons.prems have "a \<noteq> q" and "a \<noteq> backslash" and "q \<notin> set u" and "backslash \<notin> set u"
    by auto
  then show ?case
    using Cons.IH [of True "tok @ [a]"] by (simp add: escape_def)
qed

text \<open>
  C7 as the code has it. Inside double quotes a backslash is removed before exactly two
  characters, the double quote and the backslash, which it escapes; before any other
  character, \<open>$\<close> included, it is a literal character and stays in the token. So
  \<open>"a\$b"\<close> is the single token \<open>a\$b\<close>.
\<close>

theorem backslash_in_double_quotes:
  assumes "double_quote \<notin> set u" and "backslash \<notin> set u"
    and "double_quote \<notin> set v" and "backslash \<notin> set v"
  shows "parse_input ([double_quote] @ u @ [backslash, c] @ v @ [double_quote])
           = ([u @ (if c = double_quote \<or> c = backslash then [c] else [backslash, c]) @ v], [])
         \<and> parse_input [double_quote, CHR ''a'', backslash, CHR ''$'', CHR ''b'', double_quote]
           = ([[CHR ''a'', backslash, CHR ''$'', CHR ''b'']], [])"
proof -
  let ?t = "u @ (if c = double_quote \<or> c = backslash then [c] else [backslash, c])"
  have "shlex_split ([double_quote] @ u @ [backslash, c] @ v @ [double_quote])
      = read_tokens (St_quote double_quote) False St_space [] [] (u @ backslash # c # v @ [double_quote])"
    by (simp add: shlex_split_def whitespace_def quotes_def escape_def)
  also have "\<dots> = read_tokens (St_quote double_quote) True St_space ([] @ u) [] (backslash # c # v @ [double_quote])"
    using assms(1,2) by (rule read_tokens_in_quotes)
  also have "\<dots> = read_tokens (St_quote double_quote) True (St_quote double_quote) ?t [] (v @ double_quote # [])"
    by (simp add: escape_def escapedquotes_def)
  also have "\<dots> = read_tokens (St_quote double_quote) True (St_quote double_quote) (?t @ v) [] (double_quote # [])"
    using assms(3,4) by (rule read_tokens_in_quotes)
  also have "\<dots> = Inr [?t @ v]"
    by simp
  finally have general: "shlex_split ([double_quote] @ u @ [backslash, c] @ v @ [double_quote]) = Inr [?t @ v]" .
  have example: "shlex_split [double_quote, CHR ''a'', backslash, CHR ''$'', CHR ''b'', double_quote]
      = Inr [[CHR ''a'', backslash, CHR ''$'', CHR ''b'']]"
    by (simp add: shlex_split_def whitespace_def quotes_def escape_def escapedquotes_def)
  from general example show ?thesis
    by (simp add: parse_input_def)
qed

theorem backslash_in_double_quotes_witness:
  "parse_input [double_quote, CHR ''a'', backslash, double_quote, CHR ''b'', double_quote]
     = ([[CHR ''a'', double_quote, CHR ''b'']], [])
   \<and> parse_input [double_quote, CHR ''a'', backslash, backslash, CHR ''b'', double_quote]
     = ([[CHR ''a'', backslash, CHR ''b'']], [])
   \<and> parse_input [double_quote, CHR ''a'', backslash, CHR ''n'', CHR ''b'', double_quote]
     = ([[CHR ''a'', backslash, CHR ''n'', CHR ''b'']], [])"
  using backslash_in_double_quotes [of "''a''" "''b''" double_quote]
    backslash_in_double_quotes [of "''a''" "''b''" backslash]
    backslash_in_double_quotes [of "''a''" "''b''" "CHR ''n''"]
  by simp

text \<open>
  C7 fails on the code: the tokens of \<open>"a\$b"\<close> are the single token \<open>a\$b\<close>, with the
  backslash, and not \<open>a$b\<close>.
\<close>

theorem dollar_escape_counterexample:
  "fst (parse_input [double_quote, CHR ''a'', backslash, CHR ''$'', CHR ''b'', double_quote])
     = [[CHR ''a'', backslash, CHR ''$'', CHR ''b'']]
   \<and> fst (parse_input [double_quote, CHR ''a'', backslash, CHR ''$'', CHR ''b'', double_quote])
     \<noteq> [''a$b'']"
  by (simp add: parse_input_def shlex_split_def whitespace_def quotes_def escape_def
      escapedquotes_def)

end
